theory Spec2Isabelle
  imports Main
begin

section \<open>Data model of debuggerd/libdebuggerd/tombstone.cpp\<close>

text \<open>
  Process, thread and user ids are \<open>pid_t\<close> values. The code only stores, compares and
  orders them, so they are modelled as integers.
\<close>

type_synonym pid_t = int

text \<open>
  The signal-detail record delivered by the kernel. \<open>engrave_tombstone_ucontext\<close> reads
  \<open>siginfo->si_signo\<close> unconditionally, so the pointer it receives is a valid one and the
  model takes the record itself.
\<close>

record siginfo_t =
  si_signo :: int
  si_code :: int
  si_addr :: nat

type_synonym ucontext_t = "nat list"
type_synonym Regs = "nat list"
type_synonym ErrorCode = nat

text \<open>
  \<open>ThreadInfo\<close> is declared in libdebuggerd/types.h; the fields are the ones that the
  designated initialisers of tombstone.cpp name. A null pointer is \<open>None\<close>.
\<close>

record ThreadInfo =
  registers :: "Regs option"
  tagged_addr_ctrl :: int
  pac_enabled_keys :: int
  uid :: pid_t
  tid :: pid_t
  thread_name :: string
  pid :: pid_t
  command_line :: "string list"
  selinux_label :: string
  signo :: int
  siginfo :: "siginfo_t option"

text \<open>
  Modelled from the spec: the declaration of \<open>ThreadInfo\<close> with its default member
  initialisers is in libdebuggerd/types.h, outside tombstone.cpp. The spec says that
  each of the two hardware attribute flags defaults to "unsupported" rather than failing;
  \<open>prctl\<close> reports a query that the kernel does not support as \<open>-1\<close>, which is the
  value taken here.
\<close>

definition flag_unsupported :: int where
  "flag_unsupported = - 1"

text \<open>
  Modelled from the spec: the value of \<open>ThreadInfo{}\<close>, that is of a \<open>ThreadInfo\<close> for
  which no field is named. This is what \<open>std::map::operator[]\<close> stores for a key that is
  not in the map yet, and what a designated initialiser leaves in the fields it omits:
  numbers are zero, strings and vectors are empty, pointers are null, and the two
  hardware attribute flags are "unsupported".
\<close>

definition ThreadInfo_init :: ThreadInfo where
  "ThreadInfo_init =
     \<lparr>registers = None, tagged_addr_ctrl = flag_unsupported,
      pac_enabled_keys = flag_unsupported, uid = 0, tid = 0, thread_name = [], pid = 0,
      command_line = [], selinux_label = [], signo = 0, siginfo = None\<rparr>"

subsection \<open>The operating system as seen by one invocation\<close>

text \<open>
  Everything the function asks of the kernel and of libc is a field of \<open>os_env\<close>: the ids
  of the calling thread, whether the build targets aarch64 (the \<open>#if defined(__aarch64__)\<close>
  of the source), the answers of the two \<open>prctl\<close> queries (\<open>None\<close> when the kernel
  rejects the query), the contents of the files under /proc (\<open>None\<close> when a file or
  directory cannot be read), the register conversion of libunwindstack, the outcome of
  \<open>AndroidLocalUnwinder::Initialize\<close> (\<open>None\<close> on success, the error code otherwise)
  and the number of descriptors a process may hold.
\<close>

record os_env =
  getuid :: pid_t
  getpid :: pid_t
  gettid :: pid_t
  aarch64 :: bool
  PR_GET_TAGGED_ADDR_CTRL :: "int option"
  PR_PAC_GET_ENABLED_KEYS :: "int option"
  proc_comm :: "pid_t \<Rightarrow> string option"
  proc_cmdline :: "pid_t \<Rightarrow> string list option"
  proc_attr_current :: "string option"
  proc_task :: "pid_t \<Rightarrow> pid_t list option"
  Regs_CreateFromUcontext :: "ucontext_t \<Rightarrow> Regs option"
  unwinder_Initialize :: "ErrorCode option"
  RLIMIT_NOFILE :: nat

text \<open>\<open>prctl(2)\<close> returns the queried value, or \<open>-1\<close> when the query is rejected.\<close>

definition prctl :: "int option \<Rightarrow> int" where
  "prctl answer = (case answer of None \<Rightarrow> - 1 | Some v \<Rightarrow> v)"

text \<open>
  \<open>android::base::ReadFileToString(path, &content)\<close>: clears \<open>content\<close>, then fills it;
  the result is the success flag together with the new content.
\<close>

definition ReadFileToString :: "string option \<Rightarrow> bool \<times> string" where
  "ReadFileToString file = (case file of None \<Rightarrow> (False, []) | Some s \<Rightarrow> (True, s))"

text \<open>
  Modelled from the spec: \<open>get_thread_name\<close> is defined in debuggerd/util.cpp, outside
  tombstone.cpp. The spec describes it as a best-effort read of the thread's name that
  defaults to empty on failure and never propagates an error.
\<close>

definition get_thread_name :: "os_env \<Rightarrow> pid_t \<Rightarrow> string" where
  "get_thread_name os t = (case proc_comm os t of None \<Rightarrow> [] | Some n \<Rightarrow> n)"

text \<open>
  Modelled from the spec: \<open>get_command_line\<close> is defined in debuggerd/util.cpp, outside
  tombstone.cpp. The spec describes it as a best-effort read of the process command
  line, an ordered sequence of strings, that defaults to empty on failure.
\<close>

definition get_command_line :: "os_env \<Rightarrow> pid_t \<Rightarrow> string list" where
  "get_command_line os p = (case proc_cmdline os p of None \<Rightarrow> [] | Some c \<Rightarrow> c)"

text \<open>
  Modelled from the spec: \<open>iterate_tids\<close> is defined in debuggerd/util.cpp, outside
  tombstone.cpp. The spec says that it reads the live thread-id listing of the process
  and that a listing which cannot be read yields an empty result; the source shows that it
  calls the callback once per listed tid and returns whether the listing could be read.
\<close>

definition iterate_tids ::
  "os_env \<Rightarrow> pid_t \<Rightarrow> (pid_t \<Rightarrow> 's \<Rightarrow> 's) \<Rightarrow> 's \<Rightarrow> bool \<times> 's" where
  "iterate_tids os p callback s =
     (case proc_task os p of
        None \<Rightarrow> (False, s)
      | Some tids \<Rightarrow> (True, fold callback tids s))"

subsection \<open>\<open>std::map<pid_t, ThreadInfo>\<close>\<close>

text \<open>
  An ordered map is an association list kept in strictly ascending key order, which is
  the order in which a \<open>std::map\<close> is iterated.
\<close>

type_synonym 'v std_map = "(pid_t \<times> 'v) list"

definition std_map_inv :: "'v std_map \<Rightarrow> bool" where
  "std_map_inv m = sorted_wrt (<) (map fst m)"

text \<open>\<open>m[k] = v\<close>: the entry is created when the key is new and overwritten otherwise.\<close>

fun map_store :: "pid_t \<Rightarrow> 'v \<Rightarrow> 'v std_map \<Rightarrow> 'v std_map" where
  "map_store k v [] = [(k, v)]"
| "map_store k v ((a, b) # m) =
     (if k < a then (k, v) # (a, b) # m
      else if k = a then (k, v) # m
      else (a, b) # map_store k v m)"

text \<open>
  \<open>threads[k]\<close> used as a reference: a key that is not in the map yet is inserted with a
  value-initialised \<open>ThreadInfo\<close>; the reference then denotes the entry of key \<open>k\<close>.
\<close>

definition map_subscript :: "pid_t \<Rightarrow> ThreadInfo std_map \<Rightarrow> ThreadInfo std_map" where
  "map_subscript k m = (if map_of m k = None then map_store k ThreadInfo_init m else m)"

text \<open>Reading through a reference obtained from \<open>threads[k]\<close>.\<close>

definition map_at :: "pid_t \<Rightarrow> 'v std_map \<Rightarrow> 'v" where
  "map_at k m = the (map_of m k)"

section \<open>Capture of the crashing thread and enumeration of its siblings\<close>

text \<open>
  Lines 66 to 85 of \<open>engrave_tombstone_ucontext\<close>: the \<open>ThreadInfo\<close> stored for the
  crashing thread. The result of \<open>ReadFileToString\<close> is ignored by the source. On
  aarch64 the two flags are what \<open>prctl\<close> returns; elsewhere the initialiser omits them.
\<close>

definition capture_crashing_thread :: "os_env \<Rightarrow> siginfo_t \<Rightarrow> ucontext_t \<Rightarrow> ThreadInfo" where
  "capture_crashing_thread os si ucontext =
     (let name = get_thread_name os (gettid os);
          cmdline = get_command_line os (getpid os);
          regs = Regs_CreateFromUcontext os ucontext;
          label = snd (ReadFileToString (proc_attr_current os))
      in ThreadInfo_init
           \<lparr>registers := regs, uid := getuid os, tid := gettid os, thread_name := name,
            pid := getpid os, command_line := cmdline, selinux_label := label,
            siginfo := Some si, signo := si_signo si,
            tagged_addr_ctrl :=
              (if aarch64 os then prctl (PR_GET_TAGGED_ADDR_CTRL os)
               else tagged_addr_ctrl ThreadInfo_init),
            pac_enabled_keys :=
              (if aarch64 os then prctl (PR_PAC_GET_ENABLED_KEYS os)
               else pac_enabled_keys ThreadInfo_init)\<rparr>)"

text \<open>
  Lines 87 to 100: the callback given to \<open>iterate_tids\<close>. It captures the map, the
  reference \<open>thread\<close> (the entry of key \<open>thread_key\<close>) and the crashing tid.
\<close>

definition sibling_callback ::
  "os_env \<Rightarrow> pid_t \<Rightarrow> pid_t \<Rightarrow> pid_t \<Rightarrow> ThreadInfo std_map \<Rightarrow> ThreadInfo std_map" where
  "sibling_callback os thread_key target_tid t threads =
     (if target_tid = t then threads
      else
        (let thread = map_at thread_key threads
         in map_store t
              (ThreadInfo_init
                 \<lparr>uid := uid thread, tid := t, pid := pid thread,
                  command_line := command_line thread,
                  thread_name := get_thread_name os t,
                  tagged_addr_ctrl := tagged_addr_ctrl thread,
                  pac_enabled_keys := pac_enabled_keys thread\<rparr>)
              threads))"

text \<open>
  Lines 56 to 100: the map \<open>threads\<close> as it stands after the enumeration, together with
  the result of \<open>iterate_tids\<close>. Line 86 takes the reference \<open>thread\<close> from
  \<open>threads[pid]\<close>, with \<open>pid\<close> the result of \<open>getpid()\<close>.
\<close>

definition collect_threads ::
  "os_env \<Rightarrow> siginfo_t \<Rightarrow> ucontext_t \<Rightarrow> bool \<times> ThreadInfo std_map" where
  "collect_threads os si ucontext =
     (let target_tid = gettid os;
          threads0 = map_store target_tid (capture_crashing_thread os si ucontext) [];
          threads1 = map_subscript (getpid os) threads0
      in iterate_tids os (getpid os) (sibling_callback os (getpid os) target_tid) threads1)"

section \<open>File descriptors\<close>

text \<open>
  The descriptor table of the process maps each open descriptor to the open file it
  denotes. \<open>dup(2)\<close> fails with \<open>-1\<close> on a descriptor that is not open or when the
  table is full, and otherwise makes the lowest unused descriptor denote the same file.
\<close>

type_synonym fd_table = "int \<rightharpoonup> nat"

definition lowest_free :: "nat \<Rightarrow> fd_table \<Rightarrow> int option" where
  "lowest_free limit fds = find (\<lambda>n. fds n = None) (map int [0..<limit])"

definition dup :: "nat \<Rightarrow> int \<Rightarrow> fd_table \<Rightarrow> int \<times> fd_table" where
  "dup limit oldfd fds =
     (case fds oldfd of
        None \<Rightarrow> (- 1, fds)
      | Some file \<Rightarrow>
          (case lowest_free limit fds of
             None \<Rightarrow> (- 1, fds)
           | Some newfd \<Rightarrow> (newfd, fds(newfd \<mapsto> file))))"

definition close :: "int \<Rightarrow> fd_table \<Rightarrow> fd_table" where
  "close fd fds = fds(fd := None)"

text \<open>The destructor of \<open>android::base::unique_fd\<close>: closes what it owns, unless that is \<open>-1\<close>.\<close>

definition unique_fd_destroy :: "int \<Rightarrow> fd_table \<Rightarrow> fd_table" where
  "unique_fd_destroy fd fds = (if fd \<noteq> - 1 then close fd fds else fds)"

section \<open>Observable effects\<close>

text \<open>
  An argument of a log call: a number printed with \<open>%d\<close>, \<open>strerror(errno)\<close>, or
  \<open>unwindstack::GetErrorCodeString\<close> of an error code.
\<close>

datatype fmt_arg = ArgInt int | ArgStrerrorErrno | ArgErrorCodeString ErrorCode

datatype logtype = HEADER | LOGS

record log_t =
  current_tid :: pid_t
  crashed_tid :: pid_t
  tfd :: int
  amfd_data :: "nat option"

record ProcessInfo =
  abort_msg_address :: nat

datatype Unwinder = AndroidLocalUnwinder pid_t

type_synonym OpenFilesList = "(int \<times> string) list"
type_synonym Architecture = nat

text \<open>
  What one invocation does to the outside, in the order in which it happens:
  \<^item> \<open>async_safe_format_log fmt args\<close>: a call of \<open>async_safe_format_log\<close> with priority
    \<open>ANDROID_LOG_ERROR\<close> and tag \<open>LOG_TAG\<close> (every call of the file has these two);
  \<^item> \<open>Built unwinder threads target process_info tombstone\<close>: a call of
    \<open>engrave_tombstone_proto\<close> with these arguments, which filled in \<open>tombstone\<close>;
  \<^item> \<open>Serialized tombstone fd ok\<close>: a call of \<open>SerializeToFileDescriptor(fd)\<close> on
    \<open>tombstone\<close>, which returned \<open>ok\<close>;
  \<^item> \<open>LOG log type text\<close>: one use of the \<open>_LOG\<close> macro.
  The type \<open>'t\<close> is that of the \<open>Tombstone\<close> protobuf message.
\<close>

datatype 't effect =
    is_async_log: async_safe_format_log string "fmt_arg list"
  | is_Built: Built Unwinder "ThreadInfo std_map" pid_t ProcessInfo 't
  | is_Serialized: Serialized 't int bool
  | is_LOG: LOG log_t logtype string

record 't world =
  fd_table :: fd_table
  effects :: "'t effect list"

definition emit :: "'t effect \<Rightarrow> 't world \<Rightarrow> 't world" where
  "emit e w = w\<lparr>effects := effects w @ [e]\<rparr>"

text \<open>The effects that an invocation taking \<open>w\<close> to \<open>w'\<close> has added.\<close>

definition new_effects :: "'t world \<Rightarrow> 't world \<Rightarrow> 't effect list" where
  "new_effects w w' = drop (length (effects w)) (effects w')"

text \<open>
  The functions of the repository that \<open>engrave_tombstone\<close> calls and that live in other
  files (tombstone_proto.cpp, tombstone_proto_to_text.cpp) or in the protobuf runtime.
  They are parameters of the model: \<open>engrave_tombstone_proto\<close> gives the tombstone that
  it fills in, \<open>SerializeToFileDescriptor\<close> whether the write succeeds, and
  \<open>tombstone_proto_to_text\<close> the sequence of calls it makes to its callback, each with a
  line and the flag \<open>should_log\<close>. They are taken to leave the descriptor table of the
  process as they find it.
\<close>

record 't collaborators =
  engrave_tombstone_proto ::
    "Unwinder \<Rightarrow> ThreadInfo std_map \<Rightarrow> pid_t \<Rightarrow> ProcessInfo \<Rightarrow> OpenFilesList option \<Rightarrow>
     Architecture option \<Rightarrow> Unwinder option \<Rightarrow> 't"
  SerializeToFileDescriptor :: "'t \<Rightarrow> int \<Rightarrow> bool"
  tombstone_proto_to_text :: "'t \<Rightarrow> (string \<times> bool) list"

section \<open>\<open>engrave_tombstone\<close>\<close>

text \<open>\<open>line.c_str()\<close> printed with \<open>%s\<close> ends at the first NUL byte.\<close>

definition c_str :: "string \<Rightarrow> string" where
  "c_str s = takeWhile (\<lambda>ch. ch \<noteq> CHR 0x00) s"

text \<open>Lines 148 to 150: the callback given to \<open>tombstone_proto_to_text\<close>.\<close>

definition text_effect :: "log_t \<Rightarrow> string \<times> bool \<Rightarrow> 't effect" where
  "text_effect log call =
     LOG log (if snd call then HEADER else LOGS) (c_str (fst call) @ [CHR 0x0A])"

text \<open>
  Lines 124 to 151. The two \<open>unique_fd\<close> parameters are owned by the call and destroyed
  when it is over. The header gives \<open>guest_arch\<close> and \<open>guest_unwinder\<close> defaults, which
  the caller in this file relies on.
\<close>

definition engrave_tombstone ::
  "'t collaborators \<Rightarrow> int \<Rightarrow> int \<Rightarrow> Unwinder \<Rightarrow> ThreadInfo std_map \<Rightarrow> pid_t \<Rightarrow>
   ProcessInfo \<Rightarrow> OpenFilesList option \<Rightarrow> nat option \<Rightarrow> Architecture option \<Rightarrow>
   Unwinder option \<Rightarrow> 't world \<Rightarrow> 't world" where
  "engrave_tombstone c output_fd proto_fd unwinder threads target_thread process_info open_files
       amfd guest_arch guest_unwinder w =
     (let tombstone =
            engrave_tombstone_proto c unwinder threads target_thread process_info open_files
              guest_arch guest_unwinder;
          w1 = emit (Built unwinder threads target_thread process_info tombstone) w;
          w2 =
            (if proto_fd \<noteq> - 1 then
               (let ok = SerializeToFileDescriptor c tombstone proto_fd;
                    w' = emit (Serialized tombstone proto_fd ok) w1
                in if \<not> ok
                   then emit (async_safe_format_log ''failed to write proto tombstone: %s''
                                [ArgStrerrorErrno]) w'
                   else w')
             else w1);
          log = \<lparr>current_tid = target_thread, crashed_tid = target_thread, tfd = output_fd,
                 amfd_data = amfd\<rparr>;
          w3 = fold (\<lambda>call. emit (text_effect log call)) (tombstone_proto_to_text c tombstone) w2
      in w3\<lparr>fd_table := unique_fd_destroy output_fd (unique_fd_destroy proto_fd (fd_table w3))\<rparr>)"

section \<open>\<open>engrave_tombstone_ucontext\<close>\<close>

text \<open>
  Lines 54 to 122. The local \<open>log\<close> of lines 60 to 64 is never read and is left out.
  The two \<open>dup\<close> calls are arguments of one call, whose order the language leaves open;
  the model takes them from left to right.
\<close>

definition engrave_tombstone_ucontext ::
  "os_env \<Rightarrow> 't collaborators \<Rightarrow> int \<Rightarrow> int \<Rightarrow> nat \<Rightarrow> siginfo_t \<Rightarrow> ucontext_t \<Rightarrow>
   't world \<Rightarrow> 't world" where
  "engrave_tombstone_ucontext os c tombstone_fd proto_fd abort_msg si ucontext w =
     (let target_tid = gettid os;
          (listed, threads) = collect_threads os si ucontext;
          w1 =
            (if \<not> listed
             then emit (async_safe_format_log ''failed to open /proc/%d/task: %s''
                          [ArgInt (getpid os), ArgStrerrorErrno]) w
             else w)
      in case unwinder_Initialize os of
           Some code \<Rightarrow>
             emit (async_safe_format_log ''failed to init unwinder object: %s''
                     [ArgErrorCodeString code]) w1
         | None \<Rightarrow>
             (let process_info = \<lparr>abort_msg_address = abort_msg\<rparr>;
                  (output_dup, fds1) = dup (RLIMIT_NOFILE os) tombstone_fd (fd_table w1);
                  (proto_dup, fds2) = dup (RLIMIT_NOFILE os) proto_fd fds1
              in engrave_tombstone c output_dup proto_dup (AndroidLocalUnwinder (getpid os))
                   threads target_tid process_info None None None None
                   (w1\<lparr>fd_table := fds2\<rparr>)))"

section \<open>The report builder, as the spec describes it\<close>

text \<open>
  Modelled from the spec: \<open>engrave_tombstone_proto\<close>, the builder of the report, is
  defined in libdebuggerd/tombstone_proto.cpp, outside tombstone.cpp. The spec describes the report
  as the crashing thread's identity and signal detail, the abort-message address, one
  entry per thread made of the thread's state and its backtrace, the optional open-files
  snapshot and the optional guest architecture. It describes the builder as a pure
  aggregation with one invocation of the unwinder per thread, which iterates the mapping
  in its stable order and records a failed unwind as an empty backtrace marked
  unavailable. The unwinder is the function \<open>unwind\<close>, with \<open>None\<close> for a failed unwind.
\<close>

record ThreadEntry =
  entry_tid :: pid_t
  entry_state :: ThreadInfo
  backtrace :: "nat list"
  unavailable :: bool

record CrashReport =
  report_tid :: pid_t
  report_signal :: "siginfo_t option"
  report_abort_msg_address :: nat
  report_threads :: "ThreadEntry list"
  report_open_files :: "OpenFilesList option"
  report_guest_arch :: "Architecture option"

definition build_entry :: "(ThreadInfo \<Rightarrow> nat list option) \<Rightarrow> pid_t \<times> ThreadInfo \<Rightarrow> ThreadEntry" where
  "build_entry unwind kt =
     (case unwind (snd kt) of
        None \<Rightarrow> \<lparr>entry_tid = fst kt, entry_state = snd kt, backtrace = [], unavailable = True\<rparr>
      | Some frames \<Rightarrow>
          \<lparr>entry_tid = fst kt, entry_state = snd kt, backtrace = frames, unavailable = False\<rparr>)"

definition build ::
  "(ThreadInfo \<Rightarrow> nat list option) \<Rightarrow> ThreadInfo std_map \<Rightarrow> pid_t \<Rightarrow> ProcessInfo \<Rightarrow>
   OpenFilesList option \<Rightarrow> Architecture option \<Rightarrow> CrashReport" where
  "build unwind threads crashing_tid process_info open_files guest_arch =
     \<lparr>report_tid = crashing_tid,
      report_signal = (case map_of threads crashing_tid of None \<Rightarrow> None | Some t \<Rightarrow> siginfo t),
      report_abort_msg_address = abort_msg_address process_info,
      report_threads = map (build_entry unwind) threads,
      report_open_files = open_files,
      report_guest_arch = guest_arch\<rparr>"

section \<open>Auxiliary notions for the statements\<close>

text \<open>
  The process-level fields that a sibling's \<open>ThreadInfo\<close> takes over from the entry the
  reference \<open>thread\<close> denotes.
\<close>

definition shared_fields :: "ThreadInfo \<Rightarrow> pid_t \<times> pid_t \<times> string list \<times> int \<times> int" where
  "shared_fields t = (uid t, pid t, command_line t, tagged_addr_ctrl t, pac_enabled_keys t)"

text \<open>
  What holds of \<open>threads\<close> from line 85 on: the keys ascend, the entry of the crashing
  tid is the captured one, and no other entry has a signal-detail record.
\<close>

definition threads_inv :: "pid_t \<Rightarrow> ThreadInfo \<Rightarrow> ThreadInfo std_map \<Rightarrow> bool" where
  "threads_inv target captured m =
     (std_map_inv m \<and> map_of m target = Some captured \<and>
      (\<forall>k t. k \<noteq> target \<longrightarrow> map_of m k = Some t \<longrightarrow> siginfo t = None))"

subsection \<open>A concrete invocation\<close>

text \<open>
  Process 100 of user 10001 with the threads 100, 101 and 102; thread 101, which is not
  the main thread, receives signal 11. Descriptors 3 and 4 are open.
\<close>

definition example_os :: os_env where
  "example_os =
     \<lparr>getuid = 10001, getpid = 100, gettid = 101, aarch64 = True,
      PR_GET_TAGGED_ADDR_CTRL = Some 1, PR_PAC_GET_ENABLED_KEYS = Some 15,
      proc_comm =
        (\<lambda>t. if t = 100 then Some ''main'' else if t = 101 then Some ''crasher''
             else if t = 102 then Some ''worker'' else None),
      proc_cmdline = (\<lambda>p. if p = 100 then Some [''app'', ''-x''] else None),
      proc_attr_current = Some ''u:r:app:s0'',
      proc_task = (\<lambda>p. if p = 100 then Some [100, 101, 102] else None),
      Regs_CreateFromUcontext = (\<lambda>u. Some u),
      unwinder_Initialize = None,
      RLIMIT_NOFILE = 8\<rparr>"

definition example_siginfo :: siginfo_t where
  "example_siginfo = \<lparr>si_signo = 11, si_code = 1, si_addr = 0\<rparr>"

definition example_ucontext :: ucontext_t where
  "example_ucontext = [7, 8, 9]"

text \<open>The same invocation when /proc/100/task cannot be read.\<close>

definition example_os_unlisted :: os_env where
  "example_os_unlisted = example_os\<lparr>proc_task := \<lambda>p. None\<rparr>"

text \<open>The same invocation when the unwinder fails to initialise, with error code 3.\<close>

definition example_os_unwinder_fails :: os_env where
  "example_os_unwinder_fails = example_os\<lparr>unwinder_Initialize := Some 3\<rparr>"

definition example_captured :: ThreadInfo where
  "example_captured =
     \<lparr>registers = Some [7, 8, 9], tagged_addr_ctrl = 1, pac_enabled_keys = 15, uid = 10001,
      tid = 101, thread_name = ''crasher'', pid = 100, command_line = [''app'', ''-x''],
      selinux_label = ''u:r:app:s0'', signo = 11, siginfo = Some example_siginfo\<rparr>"

text \<open>
  Collaborators whose tombstone is the list of the tids it was given, whose serialisation
  fails, and whose rendering has one header line and one body line.
\<close>

definition example_collaborators :: "pid_t list collaborators" where
  "example_collaborators =
     \<lparr>engrave_tombstone_proto = (\<lambda>u threads t p f a g. map fst threads),
      SerializeToFileDescriptor = (\<lambda>tombstone fd. False),
      tombstone_proto_to_text = (\<lambda>tombstone. [(''pid: 100'', True), (''backtrace:'', False)])\<rparr>"

definition example_world :: "pid_t list world" where
  "example_world = \<lparr>fd_table = [3 \<mapsto> 30, 4 \<mapsto> 40], effects = []\<rparr>"

text \<open>
  What holds of \<open>threads\<close> during the enumeration, for the key \<open>key\<close> of the reference
  \<open>thread\<close>: the entry of \<open>key\<close> exists and has the shared fields \<open>s\<close>, and so has every
  entry but the crashing thread's.
\<close>

definition inherit_inv ::
  "pid_t \<Rightarrow> pid_t \<Rightarrow> pid_t \<times> pid_t \<times> string list \<times> int \<times> int \<Rightarrow> ThreadInfo std_map \<Rightarrow> bool" where
  "inherit_inv key target s m =
     ((\<exists>e. map_of m key = Some e \<and> shared_fields e = s) \<and>
      (\<forall>k t. k \<noteq> target \<longrightarrow> map_of m k = Some t \<longrightarrow> shared_fields t = s))"

text \<open>
  A build for another architecture than aarch64 on which none of the three files can be
  read, and an aarch64 build on a kernel that rejects both \<open>prctl\<close> queries.
\<close>

definition example_os_degraded :: os_env where
  "example_os_degraded =
     example_os\<lparr>aarch64 := False, proc_comm := \<lambda>t. None, proc_cmdline := \<lambda>p. None,
                proc_attr_current := None\<rparr>"

definition example_os_old_kernel :: os_env where
  "example_os_old_kernel =
     example_os\<lparr>PR_GET_TAGGED_ADDR_CTRL := None, PR_PAC_GET_ENABLED_KEYS := None\<rparr>"

subsection \<open>The outputs of an invocation\<close>






section \<open>Properties of the ordered map\<close>

lemma map_of_map_store: "map_of (map_store k v m) = (map_of m)(k \<mapsto> v)"
  by (induction m) (auto simp: fun_eq_iff)

lemma keys_map_store: "set (map fst (map_store k v m)) = insert k (set (map fst m))"
  by (induction k v m rule: map_store.induct) (simp_all add: insert_commute)

lemma std_map_inv_store: "std_map_inv m \<Longrightarrow> std_map_inv (map_store k v m)"
  unfolding std_map_inv_def
proof (induction m)
  case Nil
  then show ?case by simp
next
  case (Cons p m)
  obtain a b where p: "p = (a, b)" by (cases p)
  from Cons.prems have tl: "sorted_wrt (<) (map fst m)" and hd: "\<forall>x\<in>set (map fst m). a < x"
    by (simp_all add: p)
  show ?case
  proof (cases "k < a")
    case True
    with Cons.prems show ?thesis by (auto simp: p)
  next
    case False
    show ?thesis
    proof (cases "k = a")
      case True
      with Cons.prems show ?thesis by (simp add: p)
    next
      case ne: False
      with False have "a < k" by simp
      with hd have "\<forall>x\<in>set (map fst (map_store k v m)). a < x"
        unfolding keys_map_store by simp
      with Cons.IH[OF tl] False ne show ?thesis by (simp add: p)
    qed
  qed
qed

lemma std_map_inv_distinct: "std_map_inv m \<Longrightarrow> distinct (map fst m)"
  unfolding std_map_inv_def by (simp add: strict_sorted_iff)

lemma filter_single_key:
  "distinct (map fst m) \<Longrightarrow> (x, c) \<in> set m \<Longrightarrow>
   (\<And>k t. (k, t) \<in> set m \<Longrightarrow> P (k, t) = (k = x)) \<Longrightarrow> filter P m = [(x, c)]"
proof (induction m)
  case Nil
  then show ?case by simp
next
  case (Cons p m)
  obtain a b where p: "p = (a, b)" by (cases p)
  show ?case
  proof (cases "a = x")
    case True
    with Cons.prems(1,2) have bc: "b = c" by (force simp: p)
    have "filter P m = []"
    proof -
      have "\<not> P q" if "q \<in> set m" for q
      proof -
        obtain k t where q: "q = (k, t)" by (cases q)
        from that Cons.prems(1) True have "k \<noteq> x" by (force simp: p q)
        with Cons.prems(3)[of k t] that show ?thesis by (simp add: q)
      qed
      then show ?thesis by (simp add: filter_empty_conv)
    qed
    moreover have "P (a, b)" using Cons.prems(3)[of a b] True by (simp add: p)
    ultimately show ?thesis by (simp add: p True bc)
  next
    case False
    with Cons.prems(2) have mem: "(x, c) \<in> set m" by (simp add: p)
    have "\<not> P (a, b)" using Cons.prems(3)[of a b] False by (simp add: p)
    moreover have "filter P m = [(x, c)]"
      using Cons.IH[OF _ mem] Cons.prems(1,3) by (simp add: p)
    ultimately show ?thesis by (simp add: p)
  qed
qed

section \<open>The map of threads after capture and enumeration\<close>

lemma threads_inv_callback:
  "threads_inv target cap m \<Longrightarrow> threads_inv target cap (sibling_callback os key target t m)"
  by (auto simp: threads_inv_def sibling_callback_def Let_def std_map_inv_store
      map_of_map_store ThreadInfo_init_def)

lemma threads_inv_fold:
  "threads_inv target cap m \<Longrightarrow>
   threads_inv target cap (fold (sibling_callback os key target) tids m)"
  by (induction tids arbitrary: m) (simp_all add: threads_inv_callback)

lemma threads_inv_subscript:
  "threads_inv target cap m \<Longrightarrow> threads_inv target cap (map_subscript k m)"
  by (auto simp: threads_inv_def map_subscript_def std_map_inv_store map_of_map_store
      ThreadInfo_init_def)

lemma threads_inv_collect:
  "threads_inv (gettid os) (capture_crashing_thread os si ucontext)
     (snd (collect_threads os si ucontext))"
proof -
  have "threads_inv (gettid os) (capture_crashing_thread os si ucontext)
          (map_store (gettid os) (capture_crashing_thread os si ucontext) [])"
    by (simp add: threads_inv_def std_map_inv_def)
  then show ?thesis
    by (simp add: collect_threads_def Let_def iterate_tids_def threads_inv_fold
        threads_inv_subscript split: option.split)
qed

lemma siginfo_captured: "siginfo (capture_crashing_thread os si ucontext) = Some si"
  by (simp add: capture_crashing_thread_def Let_def)

lemma inherit_inv_callback:
  "inherit_inv key target s m \<Longrightarrow> inherit_inv key target s (sibling_callback os key target t m)"
  by (auto simp: inherit_inv_def sibling_callback_def Let_def map_of_map_store map_at_def
      shared_fields_def)

lemma inherit_inv_fold:
  "inherit_inv key target s m \<Longrightarrow>
   inherit_inv key target s (fold (sibling_callback os key target) tids m)"
  by (induction tids arbitrary: m) (simp_all add: inherit_inv_callback)

lemma inherit_inv_start:
  "inherit_inv key target
     (shared_fields (if key = target then captured else ThreadInfo_init))
     (map_subscript key (map_store target captured []))"
  by (auto simp: inherit_inv_def map_subscript_def map_of_map_store)

text \<open>
  What the enumeration does in general: every entry other than the crashing thread's has
  the shared fields of the entry that \<open>threads[pid]\<close> denoted at line 86. That entry is
  the captured one when the crashing thread is the main thread of the process, and a
  value-initialised one otherwise.
\<close>

lemma sibling_shared_fields:
  assumes "map_of (snd (collect_threads os si ucontext)) k = Some t" and "k \<noteq> gettid os"
  shows "shared_fields t =
         shared_fields (if getpid os = gettid os then capture_crashing_thread os si ucontext
                        else ThreadInfo_init)"
proof -
  define s where
    "s = shared_fields (if getpid os = gettid os then capture_crashing_thread os si ucontext
                        else ThreadInfo_init)"
  define m where
    "m = map_subscript (getpid os)
           (map_store (gettid os) (capture_crashing_thread os si ucontext) [])"
  have start: "inherit_inv (getpid os) (gettid os) s m"
    unfolding s_def m_def by (rule inherit_inv_start)
  have "inherit_inv (getpid os) (gettid os) s (snd (collect_threads os si ucontext))"
  proof (cases "proc_task os (getpid os)")
    case None
    with start show ?thesis
      by (simp add: collect_threads_def Let_def iterate_tids_def m_def)
  next
    case (Some tids)
    with inherit_inv_fold[OF start] show ?thesis
      by (simp add: collect_threads_def Let_def iterate_tids_def m_def)
  qed
  with assms show ?thesis
    unfolding inherit_inv_def s_def by blast
qed

section \<open>Effects and descriptors\<close>

lemma effects_emit: "effects (emit e w) = effects w @ [e]"
  by (simp add: emit_def)

lemma fd_table_emit: "fd_table (emit e w) = fd_table w"
  by (simp add: emit_def)

lemma effects_fold_emit: "effects (fold (\<lambda>x. emit (f x)) xs w) = effects w @ map f xs"
  by (induction xs arbitrary: w) (simp_all add: effects_emit)

lemma fd_table_fold_emit: "fd_table (fold (\<lambda>x. emit (f x)) xs w) = fd_table w"
  by (induction xs arbitrary: w) (simp_all add: fd_table_emit)

lemma lowest_free_unused: "lowest_free limit fds = Some n \<Longrightarrow> fds n = None \<and> 0 \<le> n"
  by (auto simp: lowest_free_def find_Some_iff)

lemma dup_fresh: "dup limit oldfd fds = (n, fds') \<Longrightarrow> n = - 1 \<or> fds n = None"
  by (auto simp: dup_def split: option.splits dest!: lowest_free_unused)

lemma dup_then_destroy: "dup limit oldfd fds = (n, fds') \<Longrightarrow> unique_fd_destroy n fds' = fds"
  by (auto simp: dup_def unique_fd_destroy_def close_def split: option.splits
      dest!: lowest_free_unused)

lemma engrave_tombstone_effects:
  "effects (engrave_tombstone c output_fd proto_fd unwinder threads target_thread process_info
      open_files amfd guest_arch guest_unwinder w) =
   effects w @
   (let tombstone = engrave_tombstone_proto c unwinder threads target_thread process_info
          open_files guest_arch guest_unwinder;
        ok = SerializeToFileDescriptor c tombstone proto_fd
    in [Built unwinder threads target_thread process_info tombstone] @
       (if proto_fd = - 1 then []
        else Serialized tombstone proto_fd ok #
             (if ok then []
              else [async_safe_format_log ''failed to write proto tombstone: %s''
                      [ArgStrerrorErrno]])) @
       map (text_effect \<lparr>current_tid = target_thread, crashed_tid = target_thread,
              tfd = output_fd, amfd_data = amfd\<rparr>) (tombstone_proto_to_text c tombstone))"
  by (simp add: engrave_tombstone_def Let_def effects_fold_emit effects_emit)

lemma engrave_tombstone_fd_table:
  "fd_table (engrave_tombstone c output_fd proto_fd unwinder threads target_thread process_info
      open_files amfd guest_arch guest_unwinder w) =
   unique_fd_destroy output_fd (unique_fd_destroy proto_fd (fd_table w))"
  by (simp add: engrave_tombstone_def Let_def fd_table_fold_emit fd_table_emit)

lemma example_collect:
  "collect_threads example_os example_siginfo example_ucontext =
     (True,
      [(100, ThreadInfo_init\<lparr>tid := 100, thread_name := ''main''\<rparr>),
       (101, example_captured),
       (102, ThreadInfo_init\<lparr>tid := 102, thread_name := ''worker''\<rparr>)])"
  by (simp add: collect_threads_def iterate_tids_def sibling_callback_def map_subscript_def
      map_at_def capture_crashing_thread_def get_thread_name_def get_command_line_def
      ReadFileToString_def prctl_def example_os_def example_os_unlisted_def
      example_captured_def example_siginfo_def example_ucontext_def ThreadInfo_init_def Let_def)

lemma example_collect_unlisted:
  "collect_threads example_os_unlisted example_siginfo example_ucontext =
     (False, [(100, ThreadInfo_init), (101, example_captured)])"
  by (simp add: collect_threads_def iterate_tids_def map_subscript_def
      capture_crashing_thread_def get_thread_name_def get_command_line_def
      ReadFileToString_def prctl_def example_os_def example_os_unlisted_def
      example_captured_def example_siginfo_def example_ucontext_def ThreadInfo_init_def Let_def)









section \<open>The claims\<close>

text \<open>
  C1. The claim: every sibling tid found by the enumeration gets a \<open>ThreadInfo\<close> that
  takes uid, pid, command line and the two hardware attribute flags from the crashing
  thread's captured entry, has a freshly queried thread name and has no registers.

  The code takes these fields from \<open>threads[pid]\<close>, not from \<open>threads[target_tid]\<close>. In the
  invocation below thread 101 of process 100 crashes: the captured entry has uid 10001,
  pid 100, the command line \<open>app -x\<close> and the flags 1 and 15, while the entry synthesised
  for the sibling 102 has uid 0, pid 0, an empty command line and both flags \<open>-1\<close>, the
  fields of the value-initialised entry that line 86 created for key 100. The name of the
  sibling is the queried one and it has no registers, as the claim says.
\<close>

theorem secondary_crasher_sibling_takes_defaults:
  "map_of (snd (collect_threads example_os example_siginfo example_ucontext)) 101 =
     Some \<lparr>registers = Some [7, 8, 9], tagged_addr_ctrl = 1, pac_enabled_keys = 15,
           uid = 10001, tid = 101, thread_name = ''crasher'', pid = 100,
           command_line = [''app'', ''-x''], selinux_label = ''u:r:app:s0'', signo = 11,
           siginfo = Some \<lparr>si_signo = 11, si_code = 1, si_addr = 0\<rparr>\<rparr> \<and>
   map_of (snd (collect_threads example_os example_siginfo example_ucontext)) 102 =
     Some \<lparr>registers = None, tagged_addr_ctrl = - 1, pac_enabled_keys = - 1,
           uid = 0, tid = 102, thread_name = ''worker'', pid = 0,
           command_line = [], selinux_label = [], signo = 0, siginfo = None\<rparr>"
  unfolding example_collect
  by (simp add: example_captured_def example_siginfo_def example_ucontext_def
      ThreadInfo_init_def flag_unsupported_def)

text \<open>
  C2. The claim: when the thread listing cannot be read, report generation still goes
  through, with a warning only, and the report has exactly one thread entry, the crashing
  thread's.

  The first half holds. The second fails when the crashing thread is not the main thread:
  line 86 has already inserted a value-initialised entry for key \<open>pid\<close>, so the map given
  to \<open>engrave_tombstone_proto\<close> has two entries. Below, thread 101 of process 100 crashes
  and /proc/100/task cannot be read: the effects are the warning, the building of the
  tombstone from the two entries 100 and 101, the failed serialisation with its log, and
  the two rendered lines.
\<close>

theorem listing_failure_secondary_crasher_two_entries:
  "new_effects example_world
     (engrave_tombstone_ucontext example_os_unlisted example_collaborators
        3 4 0 example_siginfo example_ucontext example_world) =
   [async_safe_format_log ''failed to open /proc/%d/task: %s'' [ArgInt 100, ArgStrerrorErrno],
    Built (AndroidLocalUnwinder 100) [(100, ThreadInfo_init), (101, example_captured)] 101
      \<lparr>abort_msg_address = 0\<rparr> [100, 101],
    Serialized [100, 101] 1 False,
    async_safe_format_log ''failed to write proto tombstone: %s'' [ArgStrerrorErrno],
    LOG \<lparr>current_tid = 101, crashed_tid = 101, tfd = 0, amfd_data = None\<rparr> HEADER
      (''pid: 100'' @ [CHR 0x0A]),
    LOG \<lparr>current_tid = 101, crashed_tid = 101, tfd = 0, amfd_data = None\<rparr> LOGS
      (''backtrace:'' @ [CHR 0x0A])]"
  unfolding engrave_tombstone_ucontext_def example_collect_unlisted
  by (simp add: new_effects_def
      engrave_tombstone_effects effects_emit fd_table_emit Let_def dup_def lowest_free_def
      example_world_def example_collaborators_def example_os_unlisted_def example_os_def
      text_effect_def c_str_def upt_rec)

text \<open>
  C3. When the initialisation of the unwinder fails with error code \<open>code\<close>, the call
  returns before any output: its only effects are log calls, at most the warning about
  the thread listing followed by the diagnostic that carries the error code. No tombstone
  is built, nothing is serialised, no line is rendered, and the descriptor table is as
  before.
\<close>

theorem unwinder_init_failure_aborts_before_output:
  assumes "unwinder_Initialize os = Some code"
  shows "new_effects w
           (engrave_tombstone_ucontext os c tombstone_fd proto_fd abort_msg si ucontext w) =
         (if fst (collect_threads os si ucontext) then []
          else [async_safe_format_log ''failed to open /proc/%d/task: %s''
                  [ArgInt (getpid os), ArgStrerrorErrno]]) @
         [async_safe_format_log ''failed to init unwinder object: %s''
            [ArgErrorCodeString code]] \<and>
         fd_table (engrave_tombstone_ucontext os c tombstone_fd proto_fd abort_msg si ucontext w) =
         fd_table w"
  using assms
  by (simp add: engrave_tombstone_ucontext_def Let_def new_effects_def effects_emit
      fd_table_emit split: prod.split)

theorem unwinder_init_failure_aborts_before_output_witness:
  "unwinder_Initialize example_os_unwinder_fails = Some 3 \<and>
   new_effects example_world
     (engrave_tombstone_ucontext example_os_unwinder_fails
        example_collaborators 3 4 0 example_siginfo example_ucontext example_world) =
   [async_safe_format_log ''failed to init unwinder object: %s'' [ArgErrorCodeString 3]] \<and>
   fd_table
     (engrave_tombstone_ucontext example_os_unwinder_fails
        example_collaborators 3 4 0 example_siginfo example_ucontext example_world) =
   [3 \<mapsto> 30, 4 \<mapsto> 40]"
  using unwinder_init_failure_aborts_before_output
    [where os = example_os_unwinder_fails and code = 3
       and w = example_world and c = example_collaborators and tombstone_fd = 3
       and proto_fd = 4 and abort_msg = 0 and si = example_siginfo and ucontext = example_ucontext]
  by (simp add: collect_threads_def iterate_tids_def example_os_unwinder_fails_def
      example_os_def example_world_def Let_def)

text \<open>
  C4. In \<open>engrave_tombstone\<close> the tombstone is serialised exactly when \<open>proto_fd\<close> is not
  \<open>-1\<close>: with \<open>-1\<close> there is no serialisation at all, otherwise there is one, to
  \<open>proto_fd\<close>. A serialisation that fails adds one log call and nothing else, and the lines
  that are rendered are the same whether or not a serialisation took place or succeeded.
\<close>

theorem serialization_optional_and_nonfatal:
  "(let tombstone = engrave_tombstone_proto c unwinder threads target_thread process_info
                      open_files guest_arch guest_unwinder;
        ok = SerializeToFileDescriptor c tombstone proto_fd;
        log = \<lparr>current_tid = target_thread, crashed_tid = target_thread, tfd = output_fd,
               amfd_data = amfd\<rparr>;
        new = new_effects w
                (engrave_tombstone c output_fd proto_fd unwinder threads target_thread
                   process_info open_files amfd guest_arch guest_unwinder w)
    in filter is_Serialized new =
         (if proto_fd = - 1 then [] else [Serialized tombstone proto_fd ok]) \<and>
       filter is_async_log new =
         (if proto_fd \<noteq> - 1 \<and> \<not> ok
          then [async_safe_format_log ''failed to write proto tombstone: %s'' [ArgStrerrorErrno]]
          else []) \<and>
       filter is_LOG new = map (text_effect log) (tombstone_proto_to_text c tombstone))"
  by (simp add: new_effects_def engrave_tombstone_effects Let_def text_effect_def
      filter_empty_conv comp_def)

text \<open>
  C5. In the map that capture and enumeration produce, no tid occurs twice, and the
  entries with a signal-detail record are exactly one: that of the crashing tid.
\<close>

theorem threads_keys_unique_one_siginfo:
  "distinct (map fst (snd (collect_threads os si ucontext))) \<and>
   map fst (filter (\<lambda>(k, t). siginfo t \<noteq> None) (snd (collect_threads os si ucontext))) =
     [gettid os]"
proof -
  let ?m = "snd (collect_threads os si ucontext)"
  let ?c = "capture_crashing_thread os si ucontext"
  have inv: "threads_inv (gettid os) ?c ?m"
    by (rule threads_inv_collect)
  then have d: "distinct (map fst ?m)"
    by (simp add: threads_inv_def std_map_inv_distinct)
  from inv have "map_of ?m (gettid os) = Some ?c"
    by (simp add: threads_inv_def)
  then have mem: "(gettid os, ?c) \<in> set ?m"
    by (rule map_of_SomeD)
  have "filter (\<lambda>(k, t). siginfo t \<noteq> None) ?m = [(gettid os, ?c)]"
  proof (rule filter_single_key[OF d mem])
    fix k t
    assume "(k, t) \<in> set ?m"
    with d have "map_of ?m k = Some t"
      by simp
    with inv show "(case (k, t) of (k, t) \<Rightarrow> siginfo t \<noteq> None) = (k = gettid os)"
      by (auto simp: threads_inv_def siginfo_captured)
  qed
  with d show ?thesis
    by simp
qed

text \<open>
  C6. The map given to the builder is a \<open>std::map\<close>, whose keys ascend (this is proved of
  the map that \<open>engrave_tombstone_ucontext\<close> builds in \<open>threads_inv_collect\<close>). For every
  such map, the thread entries of the report that the builder of the spec produces are
  those of the map, one per key and in ascending order of tid.
\<close>

theorem build_emits_threads_in_tid_order:
  assumes "std_map_inv threads"
  shows "sorted_wrt (<)
           (map entry_tid
              (report_threads (build unwind threads crashing_tid process_info open_files guest_arch))) \<and>
         map entry_tid
           (report_threads (build unwind threads crashing_tid process_info open_files guest_arch)) =
         map fst threads"
proof -
  have "map entry_tid (map (build_entry unwind) threads) = map fst threads"
    by (induction threads) (simp_all add: build_entry_def split: option.split)
  moreover have "report_threads (build unwind threads crashing_tid process_info open_files guest_arch) =
      map (build_entry unwind) threads"
    by (simp add: build_def)
  ultimately have "map entry_tid
      (report_threads (build unwind threads crashing_tid process_info open_files guest_arch)) =
      map fst threads"
    by (simp only:)
  with assms show ?thesis
    by (simp only: std_map_inv_def simp_thms)
qed

theorem build_emits_threads_in_tid_order_witness:
  "std_map_inv (snd (collect_threads example_os example_siginfo example_ucontext)) \<and>
   map entry_tid
     (report_threads
        (build (\<lambda>t. registers t) (snd (collect_threads example_os example_siginfo example_ucontext))
           101 \<lparr>abort_msg_address = 0\<rparr> None None)) =
   [100, 101, 102]"
proof -
  have inv: "std_map_inv (snd (collect_threads example_os example_siginfo example_ucontext))"
    using threads_inv_collect[of example_os example_siginfo example_ucontext]
    by (simp add: threads_inv_def)
  from build_emits_threads_in_tid_order[OF inv] inv show ?thesis
    by (simp add: example_collect)
qed

text \<open>
  C8. The capture of the crashing thread has no failing path: it yields a \<open>ThreadInfo\<close>
  for every state of the system, and that entry is in the map after the enumeration.
  A thread name, command line or security label that cannot be read is empty in it; the
  two hardware attribute flags have the value "unsupported" on a build for another
  architecture than aarch64 and, on aarch64, whenever the kernel rejects the query. Tid,
  signal number and signal detail are always those of the crash.
\<close>

theorem capture_fields_default_on_failure:
  "(let t = capture_crashing_thread os si ucontext
    in map_of (snd (collect_threads os si ucontext)) (gettid os) = Some t \<and>
       tid t = gettid os \<and> siginfo t = Some si \<and> signo t = si_signo si \<and>
       (proc_comm os (gettid os) = None \<longrightarrow> thread_name t = []) \<and>
       (proc_cmdline os (getpid os) = None \<longrightarrow> command_line t = []) \<and>
       (proc_attr_current os = None \<longrightarrow> selinux_label t = []) \<and>
       (\<not> aarch64 os \<longrightarrow>
          tagged_addr_ctrl t = flag_unsupported \<and> pac_enabled_keys t = flag_unsupported) \<and>
       (aarch64 os \<longrightarrow> PR_GET_TAGGED_ADDR_CTRL os = None \<longrightarrow>
          tagged_addr_ctrl t = flag_unsupported) \<and>
       (aarch64 os \<longrightarrow> PR_PAC_GET_ENABLED_KEYS os = None \<longrightarrow>
          pac_enabled_keys t = flag_unsupported))"
proof -
  have "map_of (snd (collect_threads os si ucontext)) (gettid os) =
        Some (capture_crashing_thread os si ucontext)"
    using threads_inv_collect[of os si ucontext] by (simp add: threads_inv_def)
  then show ?thesis
    by (simp add: Let_def capture_crashing_thread_def get_thread_name_def
        get_command_line_def ReadFileToString_def prctl_def ThreadInfo_init_def
        flag_unsupported_def)
qed

theorem capture_fields_default_on_failure_witness:
  "\<not> aarch64 example_os_degraded \<and>
   proc_comm example_os_degraded (gettid example_os_degraded) = None \<and>
   proc_cmdline example_os_degraded (getpid example_os_degraded) = None \<and>
   proc_attr_current example_os_degraded = None \<and>
   capture_crashing_thread example_os_degraded example_siginfo example_ucontext =
     \<lparr>registers = Some [7, 8, 9], tagged_addr_ctrl = - 1, pac_enabled_keys = - 1,
      uid = 10001, tid = 101, thread_name = [], pid = 100, command_line = [],
      selinux_label = [], signo = 11, siginfo = Some example_siginfo\<rparr> \<and>
   aarch64 example_os_old_kernel \<and>
   PR_GET_TAGGED_ADDR_CTRL example_os_old_kernel = None \<and>
   PR_PAC_GET_ENABLED_KEYS example_os_old_kernel = None \<and>
   tagged_addr_ctrl (capture_crashing_thread example_os_old_kernel example_siginfo example_ucontext) =
     flag_unsupported \<and>
   pac_enabled_keys (capture_crashing_thread example_os_old_kernel example_siginfo example_ucontext) =
     flag_unsupported"
  using capture_fields_default_on_failure[of example_os_degraded example_siginfo example_ucontext]
    capture_fields_default_on_failure[of example_os_old_kernel example_siginfo example_ucontext]
  by (simp add: Let_def example_os_degraded_def example_os_old_kernel_def example_os_def
      capture_crashing_thread_def get_thread_name_def get_command_line_def
      ReadFileToString_def ThreadInfo_init_def flag_unsupported_def example_siginfo_def
      example_ucontext_def)

text \<open>
  C9. \<open>engrave_tombstone_ucontext\<close> hands \<open>engrave_tombstone\<close> duplicates of its two
  descriptors, and the \<open>unique_fd\<close> parameters close these duplicates only: after the
  call the descriptor table of the process is what it was before, so \<open>tombstone_fd\<close> and
  \<open>proto_fd\<close> are open or closed as they were and denote the same files.
\<close>

theorem caller_descriptors_unchanged:
  "fd_table (engrave_tombstone_ucontext os c tombstone_fd proto_fd abort_msg si ucontext w) =
   fd_table w"
proof (cases "unwinder_Initialize os")
  case (Some code)
  then show ?thesis
    by (simp add: engrave_tombstone_ucontext_def Let_def fd_table_emit split: prod.split)
next
  case None
  obtain output_dup fds1 where
    d1: "dup (RLIMIT_NOFILE os) tombstone_fd (fd_table w) = (output_dup, fds1)"
    by (cases "dup (RLIMIT_NOFILE os) tombstone_fd (fd_table w)")
  obtain proto_dup fds2 where
    d2: "dup (RLIMIT_NOFILE os) proto_fd fds1 = (proto_dup, fds2)"
    by (cases "dup (RLIMIT_NOFILE os) proto_fd fds1")
  have "unique_fd_destroy output_dup (unique_fd_destroy proto_dup fds2) = fd_table w"
    by (simp add: dup_then_destroy[OF d2] dup_then_destroy[OF d1])
  with None d1 d2 show ?thesis
    by (simp add: engrave_tombstone_ucontext_def Let_def fd_table_emit
        engrave_tombstone_fd_table split: prod.split)
qed



end
